theory Spec2Isabelle
  imports Main
begin

section \<open>Python values and dictionaries\<close>

text \<open>
  The values that occur in the dictionaries of the config flow
  (\<^verbatim>\<open>dict[str, Any]\<close>): \<^verbatim>\<open>None\<close>, strings, integers and booleans.
  A dictionary is a partial map; \<^verbatim>\<open>d[k] = v\<close> is the map update and
  \<^verbatim>\<open>not d\<close> is the test against the empty map.
\<close>

datatype val = VNone | VStr string | VInt int | VBool bool

type_synonym dict = "string \<rightharpoonup> val"

type_synonym strdict = "string \<rightharpoonup> string"

text \<open>
  Modelled from the spec: the key constants of \<^verbatim>\<open>homeassistant.const\<close> and of the
  integration's \<^verbatim>\<open>const.py\<close>, which are imported by \<^verbatim>\<open>config_flow.py\<close> but whose
  declarations are not among the source files. The spec names the fields
  \<^verbatim>\<open>host\<close>, \<^verbatim>\<open>username\<close>, \<^verbatim>\<open>password\<close>, \<^verbatim>\<open>port\<close>, \<^verbatim>\<open>use_https\<close> and \<^verbatim>\<open>protocol\<close>.
\<close>

definition CONF_HOST :: string where
  "CONF_HOST = ''host''"

definition CONF_PASSWORD :: string where
  "CONF_PASSWORD = ''password''"

definition CONF_PORT :: string where
  "CONF_PORT = ''port''"

definition CONF_USERNAME :: string where
  "CONF_USERNAME = ''username''"

definition CONF_PROTOCOL :: string where
  "CONF_PROTOCOL = ''protocol''"

definition CONF_USE_HTTPS :: string where
  "CONF_USE_HTTPS = ''use_https''"

text \<open>
  \<^verbatim>\<open>DEFAULT_OPTIONS = {CONF_PROTOCOL: DEFAULT_PROTOCOL}\<close>. The value of
  \<^verbatim>\<open>DEFAULT_PROTOCOL\<close> is declared in \<^verbatim>\<open>const.py\<close>; it is a parameter here.
\<close>

definition DEFAULT_OPTIONS :: "string \<Rightarrow> dict" where
  "DEFAULT_OPTIONS DEFAULT_PROTOCOL = [CONF_PROTOCOL \<mapsto> VStr DEFAULT_PROTOCOL]"


section \<open>Exceptions\<close>

text \<open>
  The exceptions that \<^verbatim>\<open>host.async_init()\<close> can raise, by the \<^verbatim>\<open>except\<close> clause of
  \<^verbatim>\<open>async_step_user\<close> that is the first to match them (Python tries the clauses in
  source order): \<open>UserNotAdmin\<close>, \<open>CredentialsInvalidError\<close>, \<open>ApiError\<close>, then
  \<open>ReolinkError\<close> or \<open>ReolinkException\<close> (one clause), and \<open>Exception\<close> for every
  other instance of \<^verbatim>\<open>Exception\<close>. \<open>exc_str\<close> is \<^verbatim>\<open>str(err)\<close>.
  Signals that are not instances of \<^verbatim>\<open>Exception\<close> (task cancellation, interpreter
  exit) are not failures of the client and are outside the model.
\<close>

datatype exc_class =
    UserNotAdmin
  | CredentialsInvalidError
  | ApiError
  | ReolinkError
  | ReolinkException
  | Exception

record exc =
  exc_cls :: exc_class
  exc_str :: string

text \<open>
  What a step can raise to the flow manager: \<^verbatim>\<open>AbortFlow(reason)\<close>, raised by
  \<^verbatim>\<open>_abort_if_unique_id_configured\<close>, and \<^verbatim>\<open>KeyError\<close> of a dictionary lookup.
\<close>

datatype flow_exc = AbortFlow string | KeyError string


section \<open>The device client\<close>

text \<open>
  Modelled from the spec: the Remote Device Client (\<^verbatim>\<open>ReolinkHost\<close> of \<^verbatim>\<open>host.py\<close>,
  which is not among the source files). The spec gives it
  \<^verbatim>\<open>initialize\<close>, which either succeeds or throws, \<^verbatim>\<open>stop()\<close>, and the readable
  fields \<^verbatim>\<open>username\<close>, \<^verbatim>\<open>userLevel\<close>, \<^verbatim>\<open>port\<close>, \<^verbatim>\<open>useHttps\<close>, \<^verbatim>\<open>nvrName\<close>, \<^verbatim>\<open>uniqueId\<close>.
  \<open>host_async_init\<close> is the outcome of \<^verbatim>\<open>await host.async_init()\<close>: \<open>None\<close> when it
  returns, \<open>Some err\<close> when it raises \<open>err\<close>. The constructor
  \<^verbatim>\<open>ReolinkHost(hass, user_input, DEFAULT_OPTIONS)\<close> is a parameter of the steps: any
  function from the two dictionaries to such a client.
\<close>

record api =
  api_username :: string
  api_user_level :: string
  api_port :: int
  api_use_https :: bool
  api_nvr_name :: string

record reolink_host =
  host_api :: api
  host_unique_id :: string
  host_async_init :: "exc option"


section \<open>The host platform\<close>

text \<open>
  Modelled from the spec: the host registry and the flow results of
  \<^verbatim>\<open>homeassistant.config_entries\<close> and \<^verbatim>\<open>homeassistant.data_entry_flow\<close>, which are not
  among the source files. A persisted registration holds \<open>data\<close> and \<open>options\<close>;
  the registry is the list of the registrations. The observable effects of a step
  (handshake, logging, \<^verbatim>\<open>stop()\<close>, update, reload) are appended to \<open>trace\<close> in the
  order in which they happen.
\<close>

record config_entry =
  entry_id :: string
  entry_unique_id :: string
  entry_title :: string
  entry_data :: dict
  entry_options :: dict

datatype event =
    EvAsyncInit
  | EvLogException
  | EvStop
  | EvUpdateEntry string
  | EvReload string

record hass =
  config_entries :: "config_entry list"
  trace :: "event list"

text \<open>
  A form schema (\<^verbatim>\<open>vol.Schema\<close>) is the list of its markers with their validators;
  the default of a marker is \<open>None\<close> when it is not given.
\<close>

datatype marker = Required string "val option" | Optional string "val option"

datatype validator = V_str | V_positive_int | V_bool | V_In "string list"

type_synonym schema = "(marker \<times> validator) list"

text \<open>
  The results of a step: \<^verbatim>\<open>async_show_form(step_id, data_schema, errors,
  description_placeholders)\<close>, \<^verbatim>\<open>async_create_entry(title, data, options)\<close> and
  \<^verbatim>\<open>async_abort(reason)\<close>; an argument that is not passed is \<open>None\<close>.
\<close>

datatype flow_result =
    ShowForm string "schema option" "strdict option" "strdict option"
  | CreateEntry "string option" dict "dict option"
  | Abort string

text \<open>
  The state of a flow: the attributes that \<^verbatim>\<open>ReolinkFlowHandler.__init__\<close> sets
  (\<^verbatim>\<open>_host\<close>, \<^verbatim>\<open>_username\<close>, \<^verbatim>\<open>_password\<close>, \<^verbatim>\<open>_reauth\<close>), and the unique id that the
  platform keeps for the flow.
\<close>

record flow_handler =
  fh_host :: val
  fh_username :: val
  fh_password :: val
  fh_reauth :: bool
  fh_unique_id :: "string option"

text \<open>
  Modelled from the spec: \<^verbatim>\<open>setUniqueId(id) -> existingRegistrationOrNone\<close>
  (\<^verbatim>\<open>async_set_unique_id\<close>, not among the source files). It records the id in the flow
  and returns the registration that has it, if there is one.
\<close>

definition async_set_unique_id ::
  "flow_handler \<Rightarrow> string \<Rightarrow> hass \<Rightarrow> config_entry option \<times> flow_handler" where
  "async_set_unique_id self uid h =
     (find (\<lambda>e. entry_unique_id e = uid) (config_entries h),
      self\<lparr>fh_unique_id := Some uid\<rparr>)"

text \<open>
  Modelled from the spec: \<^verbatim>\<open>updateRegistrationData(existing, newData) -> changed: bool\<close>
  (\<^verbatim>\<open>hass.config_entries.async_update_entry\<close>, not among the source files). The
  registration's data is overwritten, and the result says whether that changed it.
\<close>

definition async_update_entry :: "hass \<Rightarrow> config_entry \<Rightarrow> dict \<Rightarrow> bool \<times> hass" where
  "async_update_entry h entry new_data =
     (entry_data entry \<noteq> new_data,
      h\<lparr>config_entries :=
           map (\<lambda>e. if entry_id e = entry_id entry then e\<lparr>entry_data := new_data\<rparr> else e)
             (config_entries h),
         trace := trace h @ [EvUpdateEntry (entry_id entry)]\<rparr>)"

text \<open>
  Modelled from the spec: \<^verbatim>\<open>reloadRegistration(id)\<close>
  (\<^verbatim>\<open>hass.config_entries.async_reload\<close>, not among the source files).
\<close>

definition async_reload :: "hass \<Rightarrow> string \<Rightarrow> hass" where
  "async_reload h eid = h\<lparr>trace := trace h @ [EvReload eid]\<rparr>"

text \<open>
  Modelled from the spec: \<^verbatim>\<open>abortIfUniqueIdConfigured(updates)\<close>
  (\<^verbatim>\<open>_abort_if_unique_id_configured\<close>, not among the source files). The spec's words
  are: abort with reason \<^verbatim>\<open>alreadyConfigured\<close>, "policy: always abort, never silently
  merge", and "the existing registration is left untouched". So the helper raises
  \<^verbatim>\<open>AbortFlow\<close> when a registration with the flow's unique id exists, and the
  \<open>updates\<close> it is given are not written to the registry.
\<close>

definition abort_if_unique_id_configured ::
  "flow_handler \<Rightarrow> dict \<Rightarrow> hass \<Rightarrow> flow_exc option \<times> hass" where
  "abort_if_unique_id_configured self updates h =
     (case fh_unique_id self of
        None \<Rightarrow> (None, h)
      | Some uid \<Rightarrow>
          (case find (\<lambda>e. entry_unique_id e = uid) (config_entries h) of
             None \<Rightarrow> (None, h)
           | Some e \<Rightarrow> (Some (AbortFlow ''already_configured''), h)))"

text \<open>
  Modelled from the spec: the flow manager turns an \<^verbatim>\<open>AbortFlow\<close> raised by a step
  into the result \<^verbatim>\<open>abort(reason)\<close>; any other exception propagates to the platform.
\<close>

fun flow_outcome :: "flow_exc + flow_result \<Rightarrow> flow_exc + flow_result" where
  "flow_outcome (Inl (AbortFlow r)) = Inr (Abort r)"
| "flow_outcome x = x"


section \<open>The config flow: \<^verbatim>\<open>ReolinkFlowHandler\<close>\<close>

text \<open>\<^verbatim>\<open>__init__\<close>.\<close>

definition ReolinkFlowHandler :: flow_handler where
  "ReolinkFlowHandler =
     \<lparr>fh_host = VNone, fh_username = VStr ''admin'', fh_password = VNone,
      fh_reauth = False, fh_unique_id = None\<rparr>"

text \<open>
  \<^verbatim>\<open>async_step_user\<close>. The parameters are the value of \<^verbatim>\<open>DEFAULT_PROTOCOL\<close>, the
  constructor of the client, the flow (\<^verbatim>\<open>self\<close>), the input and the platform's state.
  The \<^verbatim>\<open>try\<close> statement is the \<open>case\<close> on the outcome of the handshake, with the
  \<^verbatim>\<open>except\<close> clauses in source order; the \<^verbatim>\<open>finally\<close> clause follows every branch.
  \<^verbatim>\<open>str(host.api.nvr_name)\<close> is the name itself, as the name is a string.
\<close>

definition async_step_user ::
  "string \<Rightarrow> (dict \<Rightarrow> dict \<Rightarrow> reolink_host) \<Rightarrow> flow_handler \<Rightarrow> dict option \<Rightarrow> hass
     \<Rightarrow> (flow_exc + flow_result) \<times> flow_handler \<times> hass" where
  "async_step_user DEFAULT_PROTOCOL ReolinkHost self user_input h =
     (let errors0 = Map.empty;
          placeholders0 = [''error'' \<mapsto> ''''];
          data_schema =
            [(Required CONF_USERNAME (Some (fh_username self)), V_str),
             (Required CONF_PASSWORD (Some (fh_password self)), V_str),
             (Required CONF_HOST (Some (fh_host self)), V_str)];
          show_form = (\<lambda>errors placeholders.
            ShowForm ''user''
              (Some (if errors \<noteq> Map.empty
                     then data_schema @
                          [(Optional CONF_PORT None, V_positive_int),
                           (Optional CONF_USE_HTTPS None, V_bool)]
                     else data_schema))
              (Some errors) (Some placeholders))
      in case user_input of
           None \<Rightarrow> (Inr (show_form errors0 placeholders0), self, h)
         | Some ui \<Rightarrow>
             (let host = ReolinkHost ui (DEFAULT_OPTIONS DEFAULT_PROTOCOL);
                  h1 = h\<lparr>trace := trace h @ [EvAsyncInit]\<rparr>;
                  (errors, placeholders, h2) =
                    (case host_async_init host of
                       None \<Rightarrow> (errors0, placeholders0, h1)
                     | Some err \<Rightarrow>
                         (case exc_cls err of
                            UserNotAdmin \<Rightarrow>
                              (errors0(CONF_USERNAME \<mapsto> ''not_admin''),
                               placeholders0
                                 (''username'' \<mapsto> api_username (host_api host),
                                  ''userlevel'' \<mapsto> api_user_level (host_api host)),
                               h1)
                          | CredentialsInvalidError \<Rightarrow>
                              (errors0(CONF_HOST \<mapsto> ''invalid_auth''), placeholders0, h1)
                          | ApiError \<Rightarrow>
                              (errors0(CONF_HOST \<mapsto> ''api_error''),
                               placeholders0(''error'' \<mapsto> exc_str err), h1)
                          | ReolinkError \<Rightarrow>
                              (errors0(CONF_HOST \<mapsto> ''cannot_connect''),
                               placeholders0(''error'' \<mapsto> exc_str err), h1)
                          | ReolinkException \<Rightarrow>
                              (errors0(CONF_HOST \<mapsto> ''cannot_connect''),
                               placeholders0(''error'' \<mapsto> exc_str err), h1)
                          | Exception \<Rightarrow>
                              (errors0(CONF_HOST \<mapsto> ''unknown''),
                               placeholders0(''error'' \<mapsto> exc_str err),
                               h1\<lparr>trace := trace h1 @ [EvLogException]\<rparr>)));
                  h3 = h2\<lparr>trace := trace h2 @ [EvStop]\<rparr>
              in if errors = Map.empty then
                   (let ui1 = ui(CONF_PORT \<mapsto> VInt (api_port (host_api host)));
                        ui2 = ui1(CONF_USE_HTTPS \<mapsto> VBool (api_use_https (host_api host)));
                        (existing_entry, self1) =
                          async_set_unique_id self (host_unique_id host) h3;
                        rest = (case abort_if_unique_id_configured self1 ui2 h3 of
                                  (Some e, h4) \<Rightarrow> (Inl e, self1, h4)
                                | (None, h4) \<Rightarrow>
                                    (Inr (CreateEntry (Some (api_nvr_name (host_api host)))
                                            ui2 (Some (DEFAULT_OPTIONS DEFAULT_PROTOCOL))),
                                     self1, h4))
                    in case existing_entry of
                         None \<Rightarrow> rest
                       | Some entry \<Rightarrow>
                           if fh_reauth self1 then
                             (let (changed, h4) = async_update_entry h3 entry ui2;
                                  h5 = (if changed then async_reload h4 (entry_id entry)
                                        else h4)
                              in (Inr (Abort ''reauth_successful''), self1, h5))
                           else rest)
                 else (Inr (show_form errors placeholders), self, h3)))"

text \<open>
  \<^verbatim>\<open>async_step_reauth_confirm\<close> and \<^verbatim>\<open>async_step_reauth\<close>, whose argument
  \<^verbatim>\<open>entry_data\<close> is \<open>reauth_data\<close> here. A lookup \<^verbatim>\<open>entry_data[k]\<close> of a key that
  is absent raises \<^verbatim>\<open>KeyError\<close>.
\<close>

definition async_step_reauth_confirm ::
  "string \<Rightarrow> (dict \<Rightarrow> dict \<Rightarrow> reolink_host) \<Rightarrow> flow_handler \<Rightarrow> dict option \<Rightarrow> hass
     \<Rightarrow> (flow_exc + flow_result) \<times> flow_handler \<times> hass" where
  "async_step_reauth_confirm DEFAULT_PROTOCOL ReolinkHost self user_input h =
     (case user_input of
        Some ui \<Rightarrow> async_step_user DEFAULT_PROTOCOL ReolinkHost self None h
      | None \<Rightarrow> (Inr (ShowForm ''reauth_confirm'' None None None), self, h))"

definition async_step_reauth ::
  "string \<Rightarrow> (dict \<Rightarrow> dict \<Rightarrow> reolink_host) \<Rightarrow> flow_handler \<Rightarrow> dict \<Rightarrow> hass
     \<Rightarrow> (flow_exc + flow_result) \<times> flow_handler \<times> hass" where
  "async_step_reauth DEFAULT_PROTOCOL ReolinkHost self reauth_data h =
     (case reauth_data CONF_HOST of
        None \<Rightarrow> (Inl (KeyError CONF_HOST), self, h)
      | Some host \<Rightarrow>
          (case reauth_data CONF_USERNAME of
             None \<Rightarrow> (Inl (KeyError CONF_USERNAME), self\<lparr>fh_host := host\<rparr>, h)
           | Some username \<Rightarrow>
               (case reauth_data CONF_PASSWORD of
                  None \<Rightarrow>
                    (Inl (KeyError CONF_PASSWORD),
                     self\<lparr>fh_host := host, fh_username := username\<rparr>, h)
                | Some password \<Rightarrow>
                    async_step_reauth_confirm DEFAULT_PROTOCOL ReolinkHost
                      (self\<lparr>fh_host := host, fh_username := username,
                            fh_password := password, fh_reauth := True\<rparr>)
                      None h)))"


section \<open>The options flow: \<^verbatim>\<open>ReolinkOptionsFlowHandler\<close>\<close>

record options_flow_handler =
  ofh_config_entry :: config_entry

definition ReolinkOptionsFlowHandler :: "config_entry \<Rightarrow> options_flow_handler" where
  "ReolinkOptionsFlowHandler config_entry = \<lparr>ofh_config_entry = config_entry\<rparr>"

definition async_step_init ::
  "options_flow_handler \<Rightarrow> dict option \<Rightarrow> flow_exc + flow_result" where
  "async_step_init self user_input =
     (case user_input of
        Some ui \<Rightarrow> Inr (CreateEntry None ui None)
      | None \<Rightarrow>
          (case entry_options (ofh_config_entry self) CONF_PROTOCOL of
             None \<Rightarrow> Inl (KeyError CONF_PROTOCOL)
           | Some p \<Rightarrow>
               Inr (ShowForm ''init''
                      (Some [(Required CONF_PROTOCOL (Some p),
                              V_In [''rtsp'', ''rtmp'', ''flv''])])
                      None None)))"

text \<open>
  Modelled from the spec: what the platform does with the result of the options step,
  which is not among the source files: "if input is present, persist it verbatim as
  the new options and terminate successfully". A \<open>CreateEntry\<close> result of the options
  flow makes its data the registration's options; any other result changes nothing.
\<close>

fun persist_options :: "config_entry \<Rightarrow> flow_exc + flow_result \<Rightarrow> config_entry" where
  "persist_options entry (Inr (CreateEntry title new_options opts)) =
     entry\<lparr>entry_options := new_options\<rparr>"
| "persist_options entry r = entry"

text \<open>
  One submission of the options form for a registration: a fresh handler for the
  registration, the step \<^verbatim>\<open>init\<close> on the input, and the platform's persistence.
\<close>

definition submit_options ::
  "config_entry \<Rightarrow> dict \<Rightarrow> (flow_exc + flow_result) \<times> config_entry" where
  "submit_options entry ui =
     (let r = async_step_init (ReolinkOptionsFlowHandler entry) (Some ui)
      in (r, persist_options entry r))"


section \<open>Observations on results and traces\<close>

definition count_event :: "event \<Rightarrow> event list \<Rightarrow> nat" where
  "count_event ev evs = length (filter (\<lambda>e. e = ev) evs)"

text \<open>The default that a form gives to the field with key \<open>k\<close>.\<close>

fun marker_key :: "marker \<Rightarrow> string" where
  "marker_key (Required k d) = k"
| "marker_key (Optional k d) = k"

fun marker_default :: "marker \<Rightarrow> val option" where
  "marker_default (Required k d) = d"
| "marker_default (Optional k d) = d"

fun form_default :: "flow_exc + flow_result \<Rightarrow> string \<Rightarrow> val option" where
  "form_default (Inr (ShowForm step (Some sch) errs phs)) k =
     (case find (\<lambda>m. marker_key m = k) (map fst sch) of
        None \<Rightarrow> None
      | Some m \<Rightarrow> marker_default m)"
| "form_default r k = None"


section \<open>The error taxonomy of the spec\<close>

text \<open>
  The table of the spec, read by its words: the field that carries the error and the
  error code, for each condition of the client. Insufficient privilege is
  \<open>UserNotAdmin\<close>, invalid credentials \<open>CredentialsInvalidError\<close>, a device-reported
  API error \<open>ApiError\<close>, a network or transport failure \<open>ReolinkError\<close> or
  \<open>ReolinkException\<close>, and any other fault \<open>Exception\<close>.
\<close>

fun error_taxonomy :: "exc_class \<Rightarrow> string \<times> string" where
  "error_taxonomy UserNotAdmin = (''username'', ''not_admin'')"
| "error_taxonomy CredentialsInvalidError = (''host'', ''invalid_auth'')"
| "error_taxonomy ApiError = (''host'', ''api_error'')"
| "error_taxonomy ReolinkError = (''host'', ''cannot_connect'')"
| "error_taxonomy ReolinkException = (''host'', ''cannot_connect'')"
| "error_taxonomy Exception = (''host'', ''unknown'')"


section \<open>Example inputs\<close>

text \<open>
  Concrete clients, inputs and registries on which the steps are run below. \<open>client\<close>
  is the constructor that answers every input with one given client.
\<close>

definition client :: "reolink_host \<Rightarrow> dict \<Rightarrow> dict \<Rightarrow> reolink_host" where
  "client host user_input options = host"

definition camera_api :: api where
  "camera_api =
     \<lparr>api_username = ''viewer'', api_user_level = ''guest'', api_port = 443,
      api_use_https = True, api_nvr_name = ''Front door''\<rparr>"

definition camera :: "exc option \<Rightarrow> reolink_host" where
  "camera outcome =
     \<lparr>host_api = camera_api, host_unique_id = ''ec71db000001'',
      host_async_init = outcome\<rparr>"

definition raised :: "exc_class \<Rightarrow> string \<Rightarrow> exc option" where
  "raised c msg = Some \<lparr>exc_cls = c, exc_str = msg\<rparr>"

definition submitted :: dict where
  "submitted =
     [CONF_USERNAME \<mapsto> VStr ''viewer'', CONF_PASSWORD \<mapsto> VStr ''wrong'',
      CONF_HOST \<mapsto> VStr ''192.168.1.50'']"

definition submitted_with_overrides :: dict where
  "submitted_with_overrides =
     submitted(CONF_PORT \<mapsto> VInt 8000, CONF_USE_HTTPS \<mapsto> VBool False)"

definition registered :: config_entry where
  "registered =
     \<lparr>entry_id = ''entry1'', entry_unique_id = ''ec71db000001'',
      entry_title = ''Front door'', entry_data = Map.empty,
      entry_options = [CONF_PROTOCOL \<mapsto> VStr ''rtsp'']\<rparr>"

definition fresh_hass :: hass where
  "fresh_hass = \<lparr>config_entries = [], trace = []\<rparr>"

definition hass_with_camera :: hass where
  "hass_with_camera = \<lparr>config_entries = [registered], trace = []\<rparr>"


section \<open>The step \<^verbatim>\<open>user\<close>, path by path\<close>

text \<open>
  The step has five paths: no input; a handshake that fails; and, after a handshake that
  succeeds, a unique id that is new, one that is registered while the flow is a reauth,
  and one that is registered while it is not. Each lemma gives the result, the flow and
  the platform's state on one path.
\<close>

lemma find_map_preserved:
  "find P xs = Some e \<Longrightarrow> (\<And>x. P (f x) = P x) \<Longrightarrow> find P (map f xs) = Some (f e)"
  by (induction xs) (auto split: if_splits)

lemma empty_neq_upd: "(Map.empty = m(k \<mapsto> v)) = False"
  by (metis map_upd_nonempty)

lemma step_user_no_input:
  "async_step_user dp RH self None h =
     (Inr (ShowForm ''user''
        (Some [(Required CONF_USERNAME (Some (fh_username self)), V_str),
               (Required CONF_PASSWORD (Some (fh_password self)), V_str),
               (Required CONF_HOST (Some (fh_host self)), V_str)])
        (Some Map.empty) (Some [''error'' \<mapsto> ''''])), self, h)"
  by (simp add: async_step_user_def Let_def)

lemma step_user_failed:
  assumes "host_async_init (RH ui (DEFAULT_OPTIONS dp)) = Some err"
  shows "async_step_user dp RH self (Some ui) h =
       (Inr (ShowForm ''user''
          (Some [(Required CONF_USERNAME (Some (fh_username self)), V_str),
                 (Required CONF_PASSWORD (Some (fh_password self)), V_str),
                 (Required CONF_HOST (Some (fh_host self)), V_str),
                 (Optional CONF_PORT None, V_positive_int),
                 (Optional CONF_USE_HTTPS None, V_bool)])
          (Some [fst (error_taxonomy (exc_cls err)) \<mapsto> snd (error_taxonomy (exc_cls err))])
          (Some (if exc_cls err = UserNotAdmin
                 then [''error'' \<mapsto> '''',
                       ''username'' \<mapsto> api_username (host_api (RH ui (DEFAULT_OPTIONS dp))),
                       ''userlevel'' \<mapsto> api_user_level (host_api (RH ui (DEFAULT_OPTIONS dp)))]
                 else if exc_cls err = CredentialsInvalidError then [''error'' \<mapsto> '''']
                 else [''error'' \<mapsto> exc_str err]))), self,
        h\<lparr>trace := trace h @ [EvAsyncInit] @
            (if exc_cls err = Exception then [EvLogException] else []) @ [EvStop]\<rparr>)"
  using assms
  by (cases "exc_cls err")
    (simp_all add: async_step_user_def Let_def CONF_USERNAME_def CONF_HOST_def)


lemma step_user_novel:
  assumes "host_async_init (RH ui (DEFAULT_OPTIONS dp)) = None"
    and "find (\<lambda>e. entry_unique_id e = host_unique_id (RH ui (DEFAULT_OPTIONS dp)))
           (config_entries h) = None"
  shows "async_step_user dp RH self (Some ui) h =
     (Inr (CreateEntry (Some (api_nvr_name (host_api (RH ui (DEFAULT_OPTIONS dp)))))
         (ui(CONF_PORT \<mapsto> VInt (api_port (host_api (RH ui (DEFAULT_OPTIONS dp)))),
             CONF_USE_HTTPS \<mapsto> VBool (api_use_https (host_api (RH ui (DEFAULT_OPTIONS dp))))))
         (Some (DEFAULT_OPTIONS dp))),
      self\<lparr>fh_unique_id := Some (host_unique_id (RH ui (DEFAULT_OPTIONS dp)))\<rparr>,
      h\<lparr>trace := trace h @ [EvAsyncInit, EvStop]\<rparr>)"
  using assms
  by (simp add: async_step_user_def Let_def async_set_unique_id_def
      abort_if_unique_id_configured_def)

lemma step_user_duplicate:
  assumes "host_async_init (RH ui (DEFAULT_OPTIONS dp)) = None"
    and "find (\<lambda>e. entry_unique_id e = host_unique_id (RH ui (DEFAULT_OPTIONS dp)))
           (config_entries h) = Some entry"
    and "\<not> fh_reauth self"
  shows "async_step_user dp RH self (Some ui) h =
     (Inl (AbortFlow ''already_configured''),
      self\<lparr>fh_unique_id := Some (host_unique_id (RH ui (DEFAULT_OPTIONS dp)))\<rparr>,
      h\<lparr>trace := trace h @ [EvAsyncInit, EvStop]\<rparr>)"
  using assms
  by (simp add: async_step_user_def Let_def async_set_unique_id_def
      abort_if_unique_id_configured_def)

lemma step_user_reauth:
  assumes "host_async_init (RH ui (DEFAULT_OPTIONS dp)) = None"
    and "find (\<lambda>e. entry_unique_id e = host_unique_id (RH ui (DEFAULT_OPTIONS dp)))
           (config_entries h) = Some entry"
    and "fh_reauth self"
  shows "async_step_user dp RH self (Some ui) h =
     (Inr (Abort ''reauth_successful''),
      self\<lparr>fh_unique_id := Some (host_unique_id (RH ui (DEFAULT_OPTIONS dp)))\<rparr>,
      \<lparr>config_entries =
         map (\<lambda>e. if entry_id e = entry_id entry
                  then e\<lparr>entry_data :=
                    ui(CONF_PORT \<mapsto> VInt (api_port (host_api (RH ui (DEFAULT_OPTIONS dp)))),
                       CONF_USE_HTTPS \<mapsto>
                         VBool (api_use_https (host_api (RH ui (DEFAULT_OPTIONS dp)))))\<rparr>
                  else e) (config_entries h),
       trace = trace h @ [EvAsyncInit, EvStop, EvUpdateEntry (entry_id entry)] @
         (if entry_data entry \<noteq>
               ui(CONF_PORT \<mapsto> VInt (api_port (host_api (RH ui (DEFAULT_OPTIONS dp)))),
                  CONF_USE_HTTPS \<mapsto>
                    VBool (api_use_https (host_api (RH ui (DEFAULT_OPTIONS dp)))))
          then [EvReload (entry_id entry)] else [])\<rparr>)"
  using assms
  by (simp add: async_step_user_def Let_def async_set_unique_id_def
      async_update_entry_def async_reload_def)

text \<open>
  The step \<^verbatim>\<open>reauth\<close> stores the host, the username and the password of the
  registration in the flow and marks it as a reauth; the confirmation then leads to
  the form of the step \<^verbatim>\<open>user\<close>, whose defaults are these values.
\<close>

lemma step_reauth_seeds_flow:
  assumes "reauth_data CONF_HOST = Some host"
    and "reauth_data CONF_USERNAME = Some username"
    and "reauth_data CONF_PASSWORD = Some password"
  shows "async_step_reauth dp RH self reauth_data h =
     (Inr (ShowForm ''reauth_confirm'' None None None),
      self\<lparr>fh_host := host, fh_username := username, fh_password := password,
           fh_reauth := True\<rparr>, h)"
  using assms by (simp add: async_step_reauth_def async_step_reauth_confirm_def)

lemma step_reauth_confirm_shows_user_form:
  "async_step_reauth_confirm dp RH self (Some ui) h =
     (Inr (ShowForm ''user''
        (Some [(Required CONF_USERNAME (Some (fh_username self)), V_str),
               (Required CONF_PASSWORD (Some (fh_password self)), V_str),
               (Required CONF_HOST (Some (fh_host self)), V_str)])
        (Some Map.empty) (Some [''error'' \<mapsto> ''''])), self, h)"
  by (simp add: async_step_reauth_confirm_def step_user_no_input)

lemmas example_defs =
  client_def camera_def camera_api_def raised_def submitted_def submitted_with_overrides_def
  registered_def fresh_hass_def hass_with_camera_def ReolinkFlowHandler_def
  CONF_HOST_def CONF_PASSWORD_def CONF_PORT_def CONF_USERNAME_def CONF_USE_HTTPS_def
  CONF_PROTOCOL_def


section \<open>Properties of the step \<^verbatim>\<open>user\<close>\<close>

text \<open>
  C1. When the handshake succeeds, the flow is not a reauth and a registration with the
  client's unique id exists, the step raises \<^verbatim>\<open>AbortFlow("already_configured")\<close>, which
  the flow manager turns into the result abort(already_configured), and the registry is
  the one the step started with: the data and the options of the existing registration
  are unchanged. The abort and the untouched registry are those of
  \<open>abort_if_unique_id_configured\<close>, which follows the spec.
\<close>

theorem duplicate_aborts_untouched:
  assumes "host_async_init (RH ui (DEFAULT_OPTIONS dp)) = None"
    and "\<not> fh_reauth self"
    and "find (\<lambda>e. entry_unique_id e = host_unique_id (RH ui (DEFAULT_OPTIONS dp)))
           (config_entries h) = Some entry"
  shows "fst (async_step_user dp RH self (Some ui) h) = Inl (AbortFlow ''already_configured'')
    \<and> flow_outcome (fst (async_step_user dp RH self (Some ui) h)) =
        Inr (Abort ''already_configured'')
    \<and> config_entries (snd (snd (async_step_user dp RH self (Some ui) h))) = config_entries h"
  using assms by (simp add: step_user_duplicate)


text \<open>The same on the registered camera, for a flow started by the user.\<close>

theorem duplicate_aborts_untouched_witness:
  "host_async_init (client (camera None) submitted (DEFAULT_OPTIONS ''rtsp'')) = None
   \<and> \<not> fh_reauth ReolinkFlowHandler
   \<and> find (\<lambda>e. entry_unique_id e =
               host_unique_id (client (camera None) submitted (DEFAULT_OPTIONS ''rtsp'')))
        (config_entries hass_with_camera) = Some registered
   \<and> fst (async_step_user ''rtsp'' (client (camera None)) ReolinkFlowHandler (Some submitted)
        hass_with_camera) = Inl (AbortFlow ''already_configured'')
   \<and> config_entries (snd (snd (async_step_user ''rtsp'' (client (camera None))
        ReolinkFlowHandler (Some submitted) hass_with_camera))) = [registered]"
  using duplicate_aborts_untouched [of "client (camera None)" submitted "''rtsp''"
      ReolinkFlowHandler hass_with_camera registered]
  by (simp add: example_defs)

text \<open>
  C2, as stated, fails. A fresh flow receives the username \<^verbatim>\<open>viewer\<close>, the password
  \<^verbatim>\<open>wrong\<close> and the host \<^verbatim>\<open>192.168.1.50\<close>, and the client raises
  \<^verbatim>\<open>CredentialsInvalidError\<close>: the form that comes back has the defaults \<^verbatim>\<open>admin\<close>,
  \<^verbatim>\<open>None\<close> and \<^verbatim>\<open>None\<close>, the attributes of the flow, and none of the submitted values.
\<close>

theorem failed_handshake_defaults_counterexample:
  "form_default (fst (async_step_user ''rtsp''
        (client (camera (raised CredentialsInvalidError ''login failed'')))
        ReolinkFlowHandler (Some submitted) fresh_hass)) CONF_USERNAME = Some (VStr ''admin'')
   \<and> submitted CONF_USERNAME = Some (VStr ''viewer'')
   \<and> form_default (fst (async_step_user ''rtsp''
        (client (camera (raised CredentialsInvalidError ''login failed'')))
        ReolinkFlowHandler (Some submitted) fresh_hass)) CONF_PASSWORD = Some VNone
   \<and> submitted CONF_PASSWORD = Some (VStr ''wrong'')
   \<and> form_default (fst (async_step_user ''rtsp''
        (client (camera (raised CredentialsInvalidError ''login failed'')))
        ReolinkFlowHandler (Some submitted) fresh_hass)) CONF_HOST = Some VNone
   \<and> submitted CONF_HOST = Some (VStr ''192.168.1.50'')"
  by (simp add: async_step_user_def Let_def example_defs)


text \<open>
  C2, amended. When the handshake fails, the step returns a form for the step
  \<^verbatim>\<open>user\<close> whose errors are not empty. The defaults of its username, password and
  host fields are the attributes of the flow (\<^verbatim>\<open>admin\<close>, \<^verbatim>\<open>None\<close>, \<^verbatim>\<open>None\<close> in a fresh
  flow, or what the step \<^verbatim>\<open>reauth\<close> stored), whatever was submitted, and the optional
  fields \<^verbatim>\<open>port\<close> and \<^verbatim>\<open>use_https\<close> are added.
\<close>

theorem failed_handshake_shows_form:
  assumes "host_async_init (RH ui (DEFAULT_OPTIONS dp)) = Some err"
  shows "\<exists>errs phs.
     fst (async_step_user dp RH self (Some ui) h) =
       Inr (ShowForm ''user''
          (Some [(Required CONF_USERNAME (Some (fh_username self)), V_str),
                 (Required CONF_PASSWORD (Some (fh_password self)), V_str),
                 (Required CONF_HOST (Some (fh_host self)), V_str),
                 (Optional CONF_PORT None, V_positive_int),
                 (Optional CONF_USE_HTTPS None, V_bool)])
          (Some errs) (Some phs))
     \<and> errs \<noteq> Map.empty"
  using assms by (simp add: step_user_failed)


text \<open>The same for a device-reported API error answered to a fresh flow.\<close>

theorem failed_handshake_shows_form_witness:
  "host_async_init (client (camera (raised ApiError ''rsp code -6'')) submitted
      (DEFAULT_OPTIONS ''rtsp'')) = Some \<lparr>exc_cls = ApiError, exc_str = ''rsp code -6''\<rparr>
   \<and> (\<exists>errs phs.
     fst (async_step_user ''rtsp'' (client (camera (raised ApiError ''rsp code -6'')))
        ReolinkFlowHandler (Some submitted) fresh_hass) =
       Inr (ShowForm ''user''
          (Some [(Required CONF_USERNAME (Some (VStr ''admin'')), V_str),
                 (Required CONF_PASSWORD (Some VNone), V_str),
                 (Required CONF_HOST (Some VNone), V_str),
                 (Optional CONF_PORT None, V_positive_int),
                 (Optional CONF_USE_HTTPS None, V_bool)])
          (Some errs) (Some phs))
     \<and> errs \<noteq> Map.empty)"
  using failed_handshake_shows_form [of "client (camera (raised ApiError ''rsp code -6''))"
      submitted "''rtsp''" "\<lparr>exc_cls = ApiError, exc_str = ''rsp code -6''\<rparr>"
      ReolinkFlowHandler fresh_hass]
  by (simp add: client_def camera_def raised_def ReolinkFlowHandler_def)

text \<open>
  C3. When the handshake succeeds, the flow is a reauth and a registration with the
  client's unique id exists, the step returns abort(reauth_successful), so no
  \<open>CreateEntry\<close>; the registration found under that unique id afterwards is the
  existing one with its data replaced by the input extended with the observed port and
  transport flag; and after the handshake, the \<^verbatim>\<open>stop()\<close> and the update, a reload of
  that registration happens exactly when the update reported a change, that is when
  the old data differ from the new.
\<close>

theorem reauth_updates_and_reloads_if_changed:
  assumes "host_async_init (RH ui (DEFAULT_OPTIONS dp)) = None"
    and "fh_reauth self"
    and "find (\<lambda>e. entry_unique_id e = host_unique_id (RH ui (DEFAULT_OPTIONS dp)))
           (config_entries h) = Some entry"
  shows "fst (async_step_user dp RH self (Some ui) h) = Inr (Abort ''reauth_successful'')
    \<and> find (\<lambda>e. entry_unique_id e = host_unique_id (RH ui (DEFAULT_OPTIONS dp)))
        (config_entries (snd (snd (async_step_user dp RH self (Some ui) h)))) =
      Some (entry\<lparr>entry_data :=
        ui(CONF_PORT \<mapsto> VInt (api_port (host_api (RH ui (DEFAULT_OPTIONS dp)))),
           CONF_USE_HTTPS \<mapsto> VBool (api_use_https (host_api (RH ui (DEFAULT_OPTIONS dp)))))\<rparr>)
    \<and> trace (snd (snd (async_step_user dp RH self (Some ui) h))) =
        trace h @ [EvAsyncInit, EvStop, EvUpdateEntry (entry_id entry)] @
          (if entry_data entry =
                ui(CONF_PORT \<mapsto> VInt (api_port (host_api (RH ui (DEFAULT_OPTIONS dp)))),
                   CONF_USE_HTTPS \<mapsto>
                     VBool (api_use_https (host_api (RH ui (DEFAULT_OPTIONS dp)))))
           then [] else [EvReload (entry_id entry)])"
proof -
  let ?d = "ui(CONF_PORT \<mapsto> VInt (api_port (host_api (RH ui (DEFAULT_OPTIONS dp)))),
      CONF_USE_HTTPS \<mapsto> VBool (api_use_https (host_api (RH ui (DEFAULT_OPTIONS dp)))))"
  let ?f = "\<lambda>e. if entry_id e = entry_id entry then e\<lparr>entry_data := ?d\<rparr> else e"
  have "find (\<lambda>e. entry_unique_id e = host_unique_id (RH ui (DEFAULT_OPTIONS dp)))
          (map ?f (config_entries h)) = Some (?f entry)"
    by (rule find_map_preserved [OF assms(3)]) simp
  then show ?thesis
    using assms by (simp add: step_user_reauth)
qed


text \<open>
  The same on the registered camera, whose stored data are empty: the update changes
  them, and the reload follows.
\<close>

theorem reauth_updates_and_reloads_if_changed_witness:
  "host_async_init (client (camera None) submitted (DEFAULT_OPTIONS ''rtsp'')) = None
   \<and> fh_reauth (ReolinkFlowHandler\<lparr>fh_reauth := True\<rparr>)
   \<and> find (\<lambda>e. entry_unique_id e =
               host_unique_id (client (camera None) submitted (DEFAULT_OPTIONS ''rtsp'')))
        (config_entries hass_with_camera) = Some registered
   \<and> fst (async_step_user ''rtsp'' (client (camera None))
        (ReolinkFlowHandler\<lparr>fh_reauth := True\<rparr>) (Some submitted) hass_with_camera) =
      Inr (Abort ''reauth_successful'')
   \<and> config_entries (snd (snd (async_step_user ''rtsp'' (client (camera None))
        (ReolinkFlowHandler\<lparr>fh_reauth := True\<rparr>) (Some submitted) hass_with_camera))) =
      [registered\<lparr>entry_data :=
         submitted(CONF_PORT \<mapsto> VInt 443, CONF_USE_HTTPS \<mapsto> VBool True)\<rparr>]
   \<and> trace (snd (snd (async_step_user ''rtsp'' (client (camera None))
        (ReolinkFlowHandler\<lparr>fh_reauth := True\<rparr>) (Some submitted) hass_with_camera))) =
      [EvAsyncInit, EvStop, EvUpdateEntry ''entry1'', EvReload ''entry1'']"
  using reauth_updates_and_reloads_if_changed [of "client (camera None)" submitted "''rtsp''"
      "ReolinkFlowHandler\<lparr>fh_reauth := True\<rparr>" hass_with_camera registered]
  by (simp add: example_defs async_step_user_def Let_def async_set_unique_id_def
      async_update_entry_def async_reload_def empty_neq_upd)

text \<open>
  C4. Whatever the client raises, the step returns a form for the step \<^verbatim>\<open>user\<close> and
  raises nothing; its errors are the single entry that the taxonomy of the spec gives
  for the condition: \<^verbatim>\<open>not_admin\<close> on \<^verbatim>\<open>username\<close>, \<^verbatim>\<open>invalid_auth\<close>, \<^verbatim>\<open>api_error\<close>,
  \<^verbatim>\<open>cannot_connect\<close> or \<^verbatim>\<open>unknown\<close> on \<^verbatim>\<open>host\<close>. The placeholder \<^verbatim>\<open>error\<close> is the
  message of the exception for an API error, a transport failure and any other fault,
  and empty otherwise; the placeholders \<^verbatim>\<open>username\<close> and \<^verbatim>\<open>userlevel\<close> are the client's
  observed values for insufficient privilege, and absent otherwise.
\<close>

theorem failure_classified_by_taxonomy:
  assumes "host_async_init (RH ui (DEFAULT_OPTIONS dp)) = Some err"
  shows "\<exists>sch phs.
     fst (async_step_user dp RH self (Some ui) h) =
       Inr (ShowForm ''user'' sch
          (Some [fst (error_taxonomy (exc_cls err)) \<mapsto> snd (error_taxonomy (exc_cls err))])
          (Some phs))
     \<and> phs ''error'' =
         Some (if exc_cls err = UserNotAdmin \<or> exc_cls err = CredentialsInvalidError
               then '''' else exc_str err)
     \<and> phs ''username'' =
         (if exc_cls err = UserNotAdmin
          then Some (api_username (host_api (RH ui (DEFAULT_OPTIONS dp)))) else None)
     \<and> phs ''userlevel'' =
         (if exc_cls err = UserNotAdmin
          then Some (api_user_level (host_api (RH ui (DEFAULT_OPTIONS dp)))) else None)"
  using assms by (simp add: step_user_failed)

text \<open>
  The scenario of the spec: the credentials are valid, the client reports the level
  \<^verbatim>\<open>guest\<close> and raises \<^verbatim>\<open>UserNotAdmin\<close>.
\<close>

theorem failure_classified_by_taxonomy_witness:
  "host_async_init (client (camera (raised UserNotAdmin ''not admin'')) submitted
      (DEFAULT_OPTIONS ''rtsp'')) = Some \<lparr>exc_cls = UserNotAdmin, exc_str = ''not admin''\<rparr>
   \<and> (\<exists>sch phs.
     fst (async_step_user ''rtsp'' (client (camera (raised UserNotAdmin ''not admin'')))
        ReolinkFlowHandler (Some submitted) fresh_hass) =
       Inr (ShowForm ''user'' sch (Some [''username'' \<mapsto> ''not_admin'']) (Some phs))
     \<and> phs ''error'' = Some ''''
     \<and> phs ''username'' = Some ''viewer''
     \<and> phs ''userlevel'' = Some ''guest'')"
  using failure_classified_by_taxonomy
      [of "client (camera (raised UserNotAdmin ''not admin''))" submitted "''rtsp''"
        "\<lparr>exc_cls = UserNotAdmin, exc_str = ''not admin''\<rparr>" ReolinkFlowHandler fresh_hass]
  by (simp add: client_def camera_def camera_api_def raised_def)

text \<open>
  C5. When the handshake succeeds and no registration has the client's unique id, the
  step returns one \<open>CreateEntry\<close> result: its title is the client's name, its data hold
  the observed port and transport flag, and its options are the protocol default alone.
  Nothing is updated, reloaded or aborted: the registry is unchanged, and the only
  effects are the handshake and the \<^verbatim>\<open>stop()\<close>.
\<close>

theorem novel_id_creates_entry:
  assumes "host_async_init (RH ui (DEFAULT_OPTIONS dp)) = None"
    and "find (\<lambda>e. entry_unique_id e = host_unique_id (RH ui (DEFAULT_OPTIONS dp)))
           (config_entries h) = None"
  shows "\<exists>data.
     fst (async_step_user dp RH self (Some ui) h) =
       Inr (CreateEntry (Some (api_nvr_name (host_api (RH ui (DEFAULT_OPTIONS dp))))) data
              (Some [CONF_PROTOCOL \<mapsto> VStr dp]))
     \<and> data CONF_PORT = Some (VInt (api_port (host_api (RH ui (DEFAULT_OPTIONS dp)))))
     \<and> data CONF_USE_HTTPS =
         Some (VBool (api_use_https (host_api (RH ui (DEFAULT_OPTIONS dp)))))
     \<and> config_entries (snd (snd (async_step_user dp RH self (Some ui) h))) = config_entries h
     \<and> trace (snd (snd (async_step_user dp RH self (Some ui) h))) =
         trace h @ [EvAsyncInit, EvStop]"
  using assms
  by (simp add: step_user_novel DEFAULT_OPTIONS_def CONF_PORT_def CONF_USE_HTTPS_def)

text \<open>The same for the camera on an empty registry.\<close>

theorem novel_id_creates_entry_witness:
  "host_async_init (client (camera None) submitted (DEFAULT_OPTIONS ''rtsp'')) = None
   \<and> find (\<lambda>e. entry_unique_id e =
               host_unique_id (client (camera None) submitted (DEFAULT_OPTIONS ''rtsp'')))
        (config_entries fresh_hass) = None
   \<and> (\<exists>data.
     fst (async_step_user ''rtsp'' (client (camera None)) ReolinkFlowHandler (Some submitted)
        fresh_hass) =
       Inr (CreateEntry (Some ''Front door'') data (Some [CONF_PROTOCOL \<mapsto> VStr ''rtsp'']))
     \<and> data CONF_PORT = Some (VInt 443)
     \<and> data CONF_USE_HTTPS = Some (VBool True)
     \<and> config_entries (snd (snd (async_step_user ''rtsp'' (client (camera None))
          ReolinkFlowHandler (Some submitted) fresh_hass))) = []
     \<and> trace (snd (snd (async_step_user ''rtsp'' (client (camera None))
          ReolinkFlowHandler (Some submitted) fresh_hass))) = [EvAsyncInit, EvStop])"
  using novel_id_creates_entry [of "client (camera None)" submitted "''rtsp''" fresh_hass
      ReolinkFlowHandler]
  by (simp add: client_def camera_def camera_api_def fresh_hass_def)

text \<open>
  C6. On every path of the step that instantiates the client, whatever the outcome of
  the handshake and whatever follows it, the step calls \<^verbatim>\<open>stop()\<close> exactly once: the
  trace it leaves has one more \<open>EvStop\<close> than the trace it started with.
\<close>

theorem stop_called_exactly_once:
  "count_event EvStop (trace (snd (snd (async_step_user dp RH self (Some ui) h)))) =
     count_event EvStop (trace h) + 1"
proof (cases "host_async_init (RH ui (DEFAULT_OPTIONS dp))")
  case (Some err)
  then show ?thesis
    by (simp add: step_user_failed count_event_def)
next
  case None
  show ?thesis
  proof (cases "find (\<lambda>e. entry_unique_id e = host_unique_id (RH ui (DEFAULT_OPTIONS dp)))
                  (config_entries h)")
    case no_entry: None
    with None show ?thesis
      by (simp add: step_user_novel count_event_def)
  next
    case (Some entry)
    with None show ?thesis
      by (cases "fh_reauth self")
        (simp_all add: step_user_reauth step_user_duplicate count_event_def)
  qed
qed

text \<open>
  C8. When the flow is a reauth but no registration has the client's unique id at the
  duplicate check, the step returns a \<open>CreateEntry\<close> result with the default options,
  not an abort with \<^verbatim>\<open>reauth_successful\<close>; nothing is updated or reloaded.
\<close>

theorem reauth_without_registration_creates_entry:
  assumes "host_async_init (RH ui (DEFAULT_OPTIONS dp)) = None"
    and "fh_reauth self"
    and "find (\<lambda>e. entry_unique_id e = host_unique_id (RH ui (DEFAULT_OPTIONS dp)))
           (config_entries h) = None"
  shows "fst (async_step_user dp RH self (Some ui) h) =
       Inr (CreateEntry (Some (api_nvr_name (host_api (RH ui (DEFAULT_OPTIONS dp)))))
              (ui(CONF_PORT \<mapsto> VInt (api_port (host_api (RH ui (DEFAULT_OPTIONS dp)))),
                  CONF_USE_HTTPS \<mapsto>
                    VBool (api_use_https (host_api (RH ui (DEFAULT_OPTIONS dp))))))
              (Some (DEFAULT_OPTIONS dp)))
     \<and> config_entries (snd (snd (async_step_user dp RH self (Some ui) h))) = config_entries h
     \<and> trace (snd (snd (async_step_user dp RH self (Some ui) h))) =
         trace h @ [EvAsyncInit, EvStop]"
  using assms by (simp add: step_user_novel)

text \<open>The same for a reauth flow on an empty registry.\<close>

theorem reauth_without_registration_creates_entry_witness:
  "host_async_init (client (camera None) submitted (DEFAULT_OPTIONS ''rtsp'')) = None
   \<and> fh_reauth (ReolinkFlowHandler\<lparr>fh_reauth := True\<rparr>)
   \<and> find (\<lambda>e. entry_unique_id e =
               host_unique_id (client (camera None) submitted (DEFAULT_OPTIONS ''rtsp'')))
        (config_entries fresh_hass) = None
   \<and> fst (async_step_user ''rtsp'' (client (camera None))
        (ReolinkFlowHandler\<lparr>fh_reauth := True\<rparr>) (Some submitted) fresh_hass) =
       Inr (CreateEntry (Some ''Front door'')
              (submitted(CONF_PORT \<mapsto> VInt 443, CONF_USE_HTTPS \<mapsto> VBool True))
              (Some (DEFAULT_OPTIONS ''rtsp'')))
   \<and> trace (snd (snd (async_step_user ''rtsp'' (client (camera None))
        (ReolinkFlowHandler\<lparr>fh_reauth := True\<rparr>) (Some submitted) fresh_hass))) =
       [EvAsyncInit, EvStop]"
  using reauth_without_registration_creates_entry [of "client (camera None)" submitted
      "''rtsp''" "ReolinkFlowHandler\<lparr>fh_reauth := True\<rparr>" fresh_hass]
  by (simp add: client_def camera_def camera_api_def fresh_hass_def ReolinkFlowHandler_def)

text \<open>
  C9. The errors of every form that the step \<^verbatim>\<open>user\<close> returns have at most one entry,
  and its key is the username field or the host field.
\<close>

theorem form_has_at_most_one_error:
  assumes "fst (async_step_user dp RH self user_input h) =
             Inr (ShowForm step sch (Some errs) phs)"
  shows "card (dom errs) \<le> 1 \<and> dom errs \<subseteq> {CONF_USERNAME, CONF_HOST}"
proof (cases user_input)
  case None
  with assms have "errs = Map.empty"
    by (simp add: step_user_no_input)
  then show ?thesis by simp
next
  case (Some ui)
  show ?thesis
  proof (cases "host_async_init (RH ui (DEFAULT_OPTIONS dp))")
    case (Some err)
    with assms \<open>user_input = Some ui\<close>
    have errs: "errs = [fst (error_taxonomy (exc_cls err)) \<mapsto> snd (error_taxonomy (exc_cls err))]"
      by (simp add: step_user_failed)
    have "fst (error_taxonomy (exc_cls err)) \<in> {CONF_USERNAME, CONF_HOST}"
      by (cases "exc_cls err") (simp_all add: CONF_USERNAME_def CONF_HOST_def)
    with errs show ?thesis by auto
  next
    case None
    show ?thesis
    proof (cases "find (\<lambda>e. entry_unique_id e = host_unique_id (RH ui (DEFAULT_OPTIONS dp)))
                    (config_entries h)")
      case no_entry: None
      with None assms \<open>user_input = Some ui\<close> show ?thesis
        by (simp add: step_user_novel)
    next
      case (Some entry)
      with None assms \<open>user_input = Some ui\<close> show ?thesis
        by (cases "fh_reauth self") (simp_all add: step_user_reauth step_user_duplicate)
    qed
  qed
qed

text \<open>The same for a transport failure, whose form has the one error on the host.\<close>

theorem form_has_at_most_one_error_witness:
  "fst (async_step_user ''rtsp'' (client (camera (raised ReolinkError ''timeout'')))
      ReolinkFlowHandler (Some submitted) fresh_hass) =
     Inr (ShowForm ''user''
        (Some [(Required CONF_USERNAME (Some (VStr ''admin'')), V_str),
               (Required CONF_PASSWORD (Some VNone), V_str),
               (Required CONF_HOST (Some VNone), V_str),
               (Optional CONF_PORT None, V_positive_int),
               (Optional CONF_USE_HTTPS None, V_bool)])
        (Some [CONF_HOST \<mapsto> ''cannot_connect'']) (Some [''error'' \<mapsto> ''timeout'']))
   \<and> card (dom [CONF_HOST \<mapsto> ''cannot_connect'']) \<le> 1
   \<and> dom [CONF_HOST \<mapsto> ''cannot_connect''] \<subseteq> {CONF_USERNAME, CONF_HOST}"
proof -
  have form: "fst (async_step_user ''rtsp'' (client (camera (raised ReolinkError ''timeout'')))
      ReolinkFlowHandler (Some submitted) fresh_hass) =
     Inr (ShowForm ''user''
        (Some [(Required CONF_USERNAME (Some (VStr ''admin'')), V_str),
               (Required CONF_PASSWORD (Some VNone), V_str),
               (Required CONF_HOST (Some VNone), V_str),
               (Optional CONF_PORT None, V_positive_int),
               (Optional CONF_USE_HTTPS None, V_bool)])
        (Some [CONF_HOST \<mapsto> ''cannot_connect'']) (Some [''error'' \<mapsto> ''timeout'']))"
    by (simp add: async_step_user_def Let_def client_def camera_def raised_def
        ReolinkFlowHandler_def)
  from form form_has_at_most_one_error [OF form] show ?thesis
    by blast
qed

text \<open>
  C10. When the handshake succeeds, the data that the step persists are the input with
  \<^verbatim>\<open>port\<close> and \<^verbatim>\<open>use_https\<close> set to the client's observed values, whatever the input held
  under these keys. When no registration has the client's unique id, they are the data
  of the \<open>CreateEntry\<close> result. When one has it and the flow is a reauth, they replace
  the data of that registration in the registry. When one has it and the flow is not a
  reauth, the step aborts as already configured and the registry is unchanged.
\<close>

theorem observed_port_and_https_persisted_on_each_path:
  assumes "host_async_init (RH ui (DEFAULT_OPTIONS dp)) = None"
  shows "\<exists>data.
     data = ui(CONF_PORT \<mapsto> VInt (api_port (host_api (RH ui (DEFAULT_OPTIONS dp)))),
               CONF_USE_HTTPS \<mapsto> VBool (api_use_https (host_api (RH ui (DEFAULT_OPTIONS dp)))))
     \<and> data CONF_PORT = Some (VInt (api_port (host_api (RH ui (DEFAULT_OPTIONS dp)))))
     \<and> data CONF_USE_HTTPS =
         Some (VBool (api_use_https (host_api (RH ui (DEFAULT_OPTIONS dp)))))
     \<and> (case find (\<lambda>e. entry_unique_id e = host_unique_id (RH ui (DEFAULT_OPTIONS dp)))
                (config_entries h) of
          None \<Rightarrow>
            fst (async_step_user dp RH self (Some ui) h) =
              Inr (CreateEntry (Some (api_nvr_name (host_api (RH ui (DEFAULT_OPTIONS dp)))))
                     data (Some (DEFAULT_OPTIONS dp)))
            \<and> config_entries (snd (snd (async_step_user dp RH self (Some ui) h))) =
                config_entries h
        | Some entry \<Rightarrow>
            if fh_reauth self then
              fst (async_step_user dp RH self (Some ui) h) = Inr (Abort ''reauth_successful'')
              \<and> config_entries (snd (snd (async_step_user dp RH self (Some ui) h))) =
                  map (\<lambda>e. if entry_id e = entry_id entry then e\<lparr>entry_data := data\<rparr> else e)
                    (config_entries h)
              \<and> find (\<lambda>e. entry_unique_id e = host_unique_id (RH ui (DEFAULT_OPTIONS dp)))
                  (config_entries (snd (snd (async_step_user dp RH self (Some ui) h)))) =
                Some (entry\<lparr>entry_data := data\<rparr>)
            else
              fst (async_step_user dp RH self (Some ui) h) =
                Inl (AbortFlow ''already_configured'')
              \<and> config_entries (snd (snd (async_step_user dp RH self (Some ui) h))) =
                  config_entries h)"
proof -
  let ?uid = "host_unique_id (RH ui (DEFAULT_OPTIONS dp))"
  let ?d = "ui(CONF_PORT \<mapsto> VInt (api_port (host_api (RH ui (DEFAULT_OPTIONS dp)))),
      CONF_USE_HTTPS \<mapsto> VBool (api_use_https (host_api (RH ui (DEFAULT_OPTIONS dp)))))"
  have port: "?d CONF_PORT = Some (VInt (api_port (host_api (RH ui (DEFAULT_OPTIONS dp)))))"
    by (simp add: CONF_PORT_def CONF_USE_HTTPS_def)
  have https: "?d CONF_USE_HTTPS =
      Some (VBool (api_use_https (host_api (RH ui (DEFAULT_OPTIONS dp)))))"
    by simp
  show ?thesis
  proof (cases "find (\<lambda>e. entry_unique_id e = ?uid) (config_entries h)")
    case None
    with assms port https show ?thesis
      by (simp add: step_user_novel)
  next
    case (Some entry)
    show ?thesis
    proof (cases "fh_reauth self")
      case True
      let ?f = "\<lambda>e. if entry_id e = entry_id entry then e\<lparr>entry_data := ?d\<rparr> else e"
      have "find (\<lambda>e. entry_unique_id e = ?uid) (map ?f (config_entries h)) = Some (?f entry)"
        by (rule find_map_preserved [OF Some]) simp
      with assms Some True port https show ?thesis
        by (simp add: step_user_reauth)
    next
      case False
      with assms Some port https show ?thesis
        by (simp add: step_user_duplicate)
    qed
  qed
qed

text \<open>
  The same for an input that overrides the port with 8000 and the transport flag with
  \<^verbatim>\<open>False\<close>, while the camera observes 443 and \<^verbatim>\<open>True\<close>: on an empty registry, for a
  reauth of the registered camera, and for a second setup of the registered camera.
\<close>

theorem observed_port_and_https_persisted_on_each_path_witness:
  "host_async_init (client (camera None) submitted_with_overrides (DEFAULT_OPTIONS ''rtsp''))
     = None
   \<and> submitted_with_overrides CONF_PORT = Some (VInt 8000)
   \<and> submitted_with_overrides CONF_USE_HTTPS = Some (VBool False)
   \<and> (\<exists>data.
        data CONF_PORT = Some (VInt 443)
        \<and> data CONF_USE_HTTPS = Some (VBool True)
        \<and> fst (async_step_user ''rtsp'' (client (camera None)) ReolinkFlowHandler
             (Some submitted_with_overrides) fresh_hass) =
           Inr (CreateEntry (Some ''Front door'') data (Some (DEFAULT_OPTIONS ''rtsp'')))
        \<and> fst (async_step_user ''rtsp'' (client (camera None))
             (ReolinkFlowHandler\<lparr>fh_reauth := True\<rparr>)
             (Some submitted_with_overrides) hass_with_camera) =
           Inr (Abort ''reauth_successful'')
        \<and> config_entries (snd (snd (async_step_user ''rtsp'' (client (camera None))
             (ReolinkFlowHandler\<lparr>fh_reauth := True\<rparr>)
             (Some submitted_with_overrides) hass_with_camera))) =
           [registered\<lparr>entry_data := data\<rparr>]
        \<and> fst (async_step_user ''rtsp'' (client (camera None)) ReolinkFlowHandler
             (Some submitted_with_overrides) hass_with_camera) =
           Inl (AbortFlow ''already_configured'')
        \<and> config_entries (snd (snd (async_step_user ''rtsp'' (client (camera None))
             ReolinkFlowHandler (Some submitted_with_overrides) hass_with_camera))) =
           [registered])"
  using
    observed_port_and_https_persisted_on_each_path [of "client (camera None)"
      submitted_with_overrides "''rtsp''" ReolinkFlowHandler fresh_hass]
    observed_port_and_https_persisted_on_each_path [of "client (camera None)"
      submitted_with_overrides "''rtsp''"
      "ReolinkFlowHandler\<lparr>fh_reauth := True\<rparr>" hass_with_camera]
    observed_port_and_https_persisted_on_each_path [of "client (camera None)"
      submitted_with_overrides "''rtsp''" ReolinkFlowHandler hass_with_camera]
  by (simp add: example_defs)


section \<open>Properties of the options step \<^verbatim>\<open>init\<close>\<close>

text \<open>
  C7. Submitting the options form twice with the same input returns the successful
  result \<open>CreateEntry\<close> both times, and the registration after the second submission is
  the registration after the first, its options being the input. The persistence is
  that of \<open>persist_options\<close>, which follows the spec.
\<close>

theorem options_submission_idempotent:
  "fst (submit_options entry ui) = Inr (CreateEntry None ui None)
   \<and> entry_options (snd (submit_options entry ui)) = ui
   \<and> fst (submit_options (snd (submit_options entry ui)) ui) = Inr (CreateEntry None ui None)
   \<and> snd (submit_options (snd (submit_options entry ui)) ui) = snd (submit_options entry ui)"
  by (simp add: submit_options_def async_step_init_def Let_def)

end
